theory Spec2Isabelle
  imports Complex_Main
begin

section \<open>Two-dimensional arrays and the library operations the notebooks call\<close>

text \<open>
  The notebooks compute on two-dimensional \<^verbatim>\<open>jax.Array\<close> values. An array is modelled
  by its shape and its rows, for any type of numbers. The operations are the library calls of
  the source (\<^verbatim>\<open>@\<close>, \<^verbatim>\<open>swapaxes\<close>, \<^verbatim>\<open>/\<close>, \<^verbatim>\<open>jnp.where\<close>,
  \<^verbatim>\<open>jax.nn.softmax\<close>, \<^verbatim>\<open>jnp.concatenate\<close>, \<^verbatim>\<open>jax.random.uniform\<close>) on rank-2
  arrays. Where the library raises, the model returns \<open>Inl\<close> of the failure, named after the
  check that fails.

  The source computes in 32-bit floats. The operations of this section and the modules of the
  next one are written over the real numbers: their arithmetic is exact, and they say nothing
  of rounding, of overflow to infinity, of \<open>nan\<close> or of underflow to zero. They carry the
  properties of shapes, of failures and of the order of the heads, and the weights of a fully
  masked row. The attention call is then repeated over an arbitrary number type, with the
  arithmetic of the library as a parameter, for what the call computes on every input.
\<close>

datatype error =
    DotShape
  | BroadcastShape
  | AxisOutOfBounds
  | ConcatEmpty
  | ConcatShape
  | NegativeShape

record 'a array =
  nrows :: nat
  ncols :: nat
  elems :: "'a list list"

definition bind_err :: "error + 'a \<Rightarrow> ('a \<Rightarrow> error + 'b) \<Rightarrow> error + 'b" where
  "bind_err m f = (case m of Inl e \<Rightarrow> Inl e | Inr x \<Rightarrow> f x)"

definition tabulate2 :: "nat \<Rightarrow> nat \<Rightarrow> (nat \<Rightarrow> nat \<Rightarrow> 'a) \<Rightarrow> 'a array" where
  "tabulate2 r c f =
     \<lparr>nrows = r, ncols = c, elems = map (\<lambda>i. map (\<lambda>j. f i j) [0..<c]) [0..<r]\<rparr>"

definition entry :: "'a array \<Rightarrow> nat \<Rightarrow> nat \<Rightarrow> 'a" where
  "entry A i j = elems A ! i ! j"

text \<open>An array value is well formed when its rows agree with its shape.\<close>

definition wf_array :: "'a array \<Rightarrow> bool" where
  "wf_array A \<longleftrightarrow>
     length (elems A) = nrows A \<and> list_all (\<lambda>r. length r = ncols A) (elems A)"

text \<open>\<^verbatim>\<open>A @ B\<close>: the contracted dimensions must agree, or the library raises.\<close>

definition matmul :: "real array \<Rightarrow> real array \<Rightarrow> error + real array" where
  "matmul A B =
     (if ncols A \<noteq> nrows B then Inl DotShape
      else Inr (tabulate2 (nrows A) (ncols B)
                  (\<lambda>i j. \<Sum>k<ncols A. entry A i k * entry B k j)))"

text \<open>An axis of a rank-2 array is one of \<open>-2, -1, 0, 1\<close>; negative axes count from the end.\<close>

definition canonicalize_axis :: "int \<Rightarrow> error + nat" where
  "canonicalize_axis a =
     (if - 2 \<le> a \<and> a < 2 then Inr (nat (if a < 0 then a + 2 else a))
      else Inl AxisOutOfBounds)"

definition transpose_array :: "'a array \<Rightarrow> 'a array" where
  "transpose_array A = tabulate2 (ncols A) (nrows A) (\<lambda>i j. entry A j i)"

definition swapaxes :: "'a array \<Rightarrow> int \<Rightarrow> int \<Rightarrow> error + 'a array" where
  "swapaxes A a b =
     bind_err (canonicalize_axis a) (\<lambda>a'.
     bind_err (canonicalize_axis b) (\<lambda>b'.
       Inr (if a' = b' then A else transpose_array A)))"

text \<open>
  \<^verbatim>\<open>A / s\<close> with a scalar \<open>s\<close>: every entry is divided. The source divides by
  \<^verbatim>\<open>jnp.sqrt(d_model)\<close>; for \<open>d_model = 0\<close> the floats give \<open>nan\<close> or \<open>inf\<close> where the reals
  of the model give 0, so the properties of values below are stated for \<open>d_model \<ge> 1\<close>.
\<close>

definition divide_scalar :: "real array \<Rightarrow> real \<Rightarrow> real array" where
  "divide_scalar A s = tabulate2 (nrows A) (ncols A) (\<lambda>i j. entry A i j / s)"

text \<open>
  \<^verbatim>\<open>jnp.where(mask, c, A)\<close> broadcasts the mask and the array against each other: along
  each axis the two sizes are equal, or one of them is 1 and is repeated.
\<close>

definition broadcast_dim :: "nat \<Rightarrow> nat \<Rightarrow> nat option" where
  "broadcast_dim a b =
     (if a = b then Some a else if a = 1 then Some b else if b = 1 then Some a else None)"

definition bidx :: "nat \<Rightarrow> nat \<Rightarrow> nat" where
  "bidx n i = (if n = 1 then 0 else i)"

definition where_array :: "bool array \<Rightarrow> real \<Rightarrow> real array \<Rightarrow> error + real array" where
  "where_array M c A =
     (case (broadcast_dim (nrows M) (nrows A), broadcast_dim (ncols M) (ncols A)) of
        (Some r, Some n) \<Rightarrow>
          Inr (tabulate2 r n (\<lambda>i j.
                 if entry M (bidx (nrows M) i) (bidx (ncols M) j) then c
                 else entry A (bidx (nrows A) i) (bidx (ncols A) j)))
      | _ \<Rightarrow> Inl BroadcastShape)"

text \<open>
  \<^verbatim>\<open>jax.nn.softmax\<close> along one axis: the library subtracts the maximum along the axis,
  exponentiates, and divides by the sum along the axis. On an empty axis there is nothing to
  compute.
\<close>

definition softmax_row :: "real list \<Rightarrow> real list" where
  "softmax_row xs =
     (let x_max = Max (set xs);
          unnormalized = map (\<lambda>x. exp (x - x_max)) xs
      in map (\<lambda>u. u / sum_list unnormalized) unnormalized)"

definition map_rows :: "('a list \<Rightarrow> 'a list) \<Rightarrow> 'a array \<Rightarrow> 'a array" where
  "map_rows f A = tabulate2 (nrows A) (ncols A) (\<lambda>i j. f (elems A ! i) ! j)"

definition softmax :: "real array \<Rightarrow> int \<Rightarrow> error + real array" where
  "softmax A axis =
     bind_err (canonicalize_axis axis) (\<lambda>ax.
       Inr (if ax = 1 then map_rows softmax_row A
            else transpose_array (map_rows softmax_row (transpose_array A))))"

text \<open>
  \<^verbatim>\<open>jnp.concatenate(arrays, axis)\<close>: the list must not be empty, and the arrays must agree
  on the other axis.
\<close>

definition concatenate :: "'a array list \<Rightarrow> int \<Rightarrow> error + 'a array" where
  "concatenate arrays axis =
     (case arrays of
        [] \<Rightarrow> Inl ConcatEmpty
      | A # rest \<Rightarrow>
          bind_err (canonicalize_axis axis) (\<lambda>ax.
            if ax = 1 then
              (if list_all (\<lambda>B. nrows B = nrows A) rest
               then Inr \<lparr>nrows = nrows A, ncols = sum_list (map ncols arrays),
                         elems = map (\<lambda>i. concat (map (\<lambda>B. elems B ! i) arrays))
                                   [0..<nrows A]\<rparr>
               else Inl ConcatShape)
            else
              (if list_all (\<lambda>B. ncols B = ncols A) rest
               then Inr \<lparr>nrows = sum_list (map nrows arrays), ncols = ncols A,
                         elems = concat (map elems arrays)\<rparr>
               else Inl ConcatShape)))"

section \<open>Random keys\<close>

text \<open>
  \<^verbatim>\<open>jax.random.uniform(key, shape)\<close> is a pure function of the key and the shape, and
  \<^verbatim>\<open>nnx.Rngs\<close> is a key with a counter: each call of \<^verbatim>\<open>rngs.params()\<close> folds the counter
  into the key and increments the counter. The two library functions are parameters of the
  model.
\<close>

record 'k jax_random =
  fold_in :: "'k \<Rightarrow> nat \<Rightarrow> 'k"
  uniform :: "'k \<Rightarrow> nat \<times> nat \<Rightarrow> nat \<Rightarrow> nat \<Rightarrow> real"

record 'k Rngs =
  rng_key :: 'k
  rng_count :: nat

definition Rngs_params :: "'k jax_random \<Rightarrow> 'k Rngs \<Rightarrow> 'k \<times> 'k Rngs" where
  "Rngs_params J rngs =
     (fold_in J (rng_key rngs) (rng_count rngs), rngs\<lparr>rng_count := Suc (rng_count rngs)\<rparr>)"

definition random_uniform :: "'k jax_random \<Rightarrow> 'k \<Rightarrow> int \<times> int \<Rightarrow> error + real array" where
  "random_uniform J key shape =
     (if fst shape < 0 \<or> snd shape < 0 then Inl NegativeShape
      else Inr (tabulate2 (nat (fst shape)) (nat (snd shape))
                  (uniform J key (nat (fst shape), nat (snd shape)))))"

section \<open>The attention modules\<close>

text \<open>
  \<^verbatim>\<open>Attention\<close>, \<^verbatim>\<open>SelfAttention\<close> and \<^verbatim>\<open>MaskedSelfAttention\<close> have the same fields.
\<close>

record 'a attention_module =
  W_q :: "'a array"
  W_k :: "'a array"
  W_v :: "'a array"
  row_dim :: int
  col_dim :: int
  d_model :: int

type_synonym attention = "real attention_module"

definition Attention_init ::
  "'k jax_random \<Rightarrow> int \<Rightarrow> int \<Rightarrow> int \<Rightarrow> 'k Rngs \<Rightarrow> error + (attention \<times> 'k Rngs)" where
  "Attention_init J d r c rngs =
     (let (key, rngs') = Rngs_params J rngs in
      bind_err (random_uniform J key (d, d)) (\<lambda>wq.
      bind_err (random_uniform J key (d, d)) (\<lambda>wk.
      bind_err (random_uniform J key (d, d)) (\<lambda>wv.
        Inr (\<lparr>W_q = wq, W_k = wk, W_v = wv, row_dim = r, col_dim = c, d_model = d\<rparr>,
             rngs')))))"

text \<open>
  The local variables \<^verbatim>\<open>attention_percents\<close> and \<^verbatim>\<open>v\<close> of \<^verbatim>\<open>Attention.__call__\<close>,
  in the order in which the source computes them.
\<close>

definition Attention_locals ::
  "attention \<Rightarrow> real array \<Rightarrow> real array \<Rightarrow> real array \<Rightarrow> bool array option
     \<Rightarrow> error + (real array \<times> real array)" where
  "Attention_locals self encodings_for_q encodings_for_k encodings_for_v mask_opt =
     bind_err (matmul encodings_for_q (W_q self)) (\<lambda>q.
     bind_err (matmul encodings_for_k (W_k self)) (\<lambda>k.
     bind_err (matmul encodings_for_v (W_v self)) (\<lambda>v.
     bind_err (swapaxes k (row_dim self) (col_dim self)) (\<lambda>k_t.
     bind_err (matmul q k_t) (\<lambda>sims.
     bind_err (case mask_opt of
                 None \<Rightarrow> Inr (divide_scalar sims (sqrt (real_of_int (d_model self))))
               | Some m \<Rightarrow>
                   where_array m (- 1000000000)
                     (divide_scalar sims (sqrt (real_of_int (d_model self))))) (\<lambda>scaled_sims.
     bind_err (softmax scaled_sims (col_dim self)) (\<lambda>attention_percents.
       Inr (attention_percents, v))))))))"

definition Attention_call ::
  "attention \<Rightarrow> real array \<Rightarrow> real array \<Rightarrow> real array \<Rightarrow> bool array option
     \<Rightarrow> error + real array" where
  "Attention_call self encodings_for_q encodings_for_k encodings_for_v mask_opt =
     bind_err (Attention_locals self encodings_for_q encodings_for_k encodings_for_v mask_opt)
       (\<lambda>(attention_percents, v). matmul attention_percents v)"

text \<open>\<^verbatim>\<open>SelfAttention\<close> (selfattention.ipynb): one input, no mask.\<close>

definition SelfAttention_init ::
  "'k jax_random \<Rightarrow> int \<Rightarrow> int \<Rightarrow> int \<Rightarrow> 'k Rngs \<Rightarrow> error + (attention \<times> 'k Rngs)" where
  "SelfAttention_init J d r c rngs =
     (let (key, rngs') = Rngs_params J rngs in
      bind_err (random_uniform J key (d, d)) (\<lambda>wq.
      bind_err (random_uniform J key (d, d)) (\<lambda>wk.
      bind_err (random_uniform J key (d, d)) (\<lambda>wv.
        Inr (\<lparr>W_q = wq, W_k = wk, W_v = wv, row_dim = r, col_dim = c, d_model = d\<rparr>,
             rngs')))))"

definition SelfAttention_call :: "attention \<Rightarrow> real array \<Rightarrow> error + real array" where
  "SelfAttention_call self token_encodings =
     bind_err (matmul token_encodings (W_q self)) (\<lambda>q.
     bind_err (matmul token_encodings (W_k self)) (\<lambda>k.
     bind_err (matmul token_encodings (W_v self)) (\<lambda>v.
     bind_err (swapaxes k (row_dim self) (col_dim self)) (\<lambda>k_t.
     bind_err (matmul q k_t) (\<lambda>sims.
     bind_err (softmax (divide_scalar sims (sqrt (real_of_int (d_model self))))
                 (col_dim self)) (\<lambda>attention_percents.
       matmul attention_percents v))))))"

text \<open>\<^verbatim>\<open>MaskedSelfAttention\<close> (the masked self-attention notebook): one input, optional mask.\<close>

definition MaskedSelfAttention_init ::
  "'k jax_random \<Rightarrow> int \<Rightarrow> int \<Rightarrow> int \<Rightarrow> 'k Rngs \<Rightarrow> error + (attention \<times> 'k Rngs)" where
  "MaskedSelfAttention_init J d r c rngs =
     (let (key, rngs') = Rngs_params J rngs in
      bind_err (random_uniform J key (d, d)) (\<lambda>wq.
      bind_err (random_uniform J key (d, d)) (\<lambda>wk.
      bind_err (random_uniform J key (d, d)) (\<lambda>wv.
        Inr (\<lparr>W_q = wq, W_k = wk, W_v = wv, row_dim = r, col_dim = c, d_model = d\<rparr>,
             rngs')))))"

definition MaskedSelfAttention_locals ::
  "attention \<Rightarrow> real array \<Rightarrow> bool array option \<Rightarrow> error + (real array \<times> real array)" where
  "MaskedSelfAttention_locals self token_encodings mask_opt =
     bind_err (matmul token_encodings (W_q self)) (\<lambda>q.
     bind_err (matmul token_encodings (W_k self)) (\<lambda>k.
     bind_err (matmul token_encodings (W_v self)) (\<lambda>v.
     bind_err (swapaxes k (row_dim self) (col_dim self)) (\<lambda>k_t.
     bind_err (matmul q k_t) (\<lambda>sims.
     bind_err (case mask_opt of
                 None \<Rightarrow> Inr (divide_scalar sims (sqrt (real_of_int (d_model self))))
               | Some m \<Rightarrow>
                   where_array m (- 1000000000)
                     (divide_scalar sims (sqrt (real_of_int (d_model self))))) (\<lambda>scaled_sims.
     bind_err (softmax scaled_sims (col_dim self)) (\<lambda>attention_percents.
       Inr (attention_percents, v))))))))"

definition MaskedSelfAttention_call ::
  "attention \<Rightarrow> real array \<Rightarrow> bool array option \<Rightarrow> error + real array" where
  "MaskedSelfAttention_call self token_encodings mask_opt =
     bind_err (MaskedSelfAttention_locals self token_encodings mask_opt)
       (\<lambda>(attention_percents, v). matmul attention_percents v)"

text \<open>\<^verbatim>\<open>MultiHeadAttention\<close>: a list of heads, built and run in order.\<close>

record MultiHeadAttention =
  heads :: "attention list"
  mh_col_dim :: int

fun init_heads ::
  "'k jax_random \<Rightarrow> int \<Rightarrow> int \<Rightarrow> int \<Rightarrow> nat \<Rightarrow> 'k Rngs
     \<Rightarrow> error + (attention list \<times> 'k Rngs)" where
  "init_heads J d r c 0 rngs = Inr ([], rngs)"
| "init_heads J d r c (Suc n) rngs =
     bind_err (Attention_init J d r c rngs) (\<lambda>(h, rngs').
     bind_err (init_heads J d r c n rngs') (\<lambda>(hs, rngs'').
       Inr (h # hs, rngs'')))"

text \<open>\<^verbatim>\<open>range(num_heads)\<close> is empty when \<open>num_heads \<le> 0\<close>.\<close>

definition MultiHeadAttention_init ::
  "'k jax_random \<Rightarrow> int \<Rightarrow> int \<Rightarrow> int \<Rightarrow> int \<Rightarrow> 'k Rngs
     \<Rightarrow> error + (MultiHeadAttention \<times> 'k Rngs)" where
  "MultiHeadAttention_init J d r c num_heads rngs =
     bind_err (init_heads J d r c (nat num_heads) rngs) (\<lambda>(hs, rngs').
       Inr (\<lparr>heads = hs, mh_col_dim = c\<rparr>, rngs'))"

fun run_heads ::
  "attention list \<Rightarrow> real array \<Rightarrow> real array \<Rightarrow> real array \<Rightarrow> error + real array list" where
  "run_heads [] eq ek ev = Inr []"
| "run_heads (head # rest) eq ek ev =
     bind_err (Attention_call head eq ek ev None) (\<lambda>out.
     bind_err (run_heads rest eq ek ev) (\<lambda>outs.
       Inr (out # outs)))"

definition MultiHeadAttention_call ::
  "MultiHeadAttention \<Rightarrow> real array \<Rightarrow> real array \<Rightarrow> real array \<Rightarrow> error + real array" where
  "MultiHeadAttention_call self encodings_for_q encodings_for_k encodings_for_v =
     bind_err (run_heads (heads self) encodings_for_q encodings_for_k encodings_for_v)
       (\<lambda>outputs. concatenate outputs (mh_col_dim self))"

section \<open>The attention call over an arbitrary number type\<close>

text \<open>
  The same call with the numbers and their primitive operations as parameters: the
  contraction of a row with a column that \<^verbatim>\<open>@\<close> computes, the division, the square root,
  the conversion of an integer (\<^verbatim>\<open>d_model\<close>, and the literal \<^verbatim>\<open>-1e9\<close>), and the softmax
  of one row that \<^verbatim>\<open>jax.nn.softmax\<close> computes along its axis. Nothing is assumed of them, so
  what is proved of \<open>Attention_call_g\<close> holds for the 32-bit floats of the source, with their
  infinities and \<open>nan\<close>, as it does for the real numbers. Shapes, axes, broadcasting and
  failures are those of the operations above.
\<close>

record 'a arith =
  a_dot :: "'a list \<Rightarrow> 'a list \<Rightarrow> 'a"
  a_div :: "'a \<Rightarrow> 'a \<Rightarrow> 'a"
  a_sqrt :: "'a \<Rightarrow> 'a"
  a_of_int :: "int \<Rightarrow> 'a"
  a_softmax :: "'a list \<Rightarrow> 'a list"

text \<open>The arithmetic of the real numbers, at which the call above is the one of the previous section.\<close>

definition real_arith :: "real arith" where
  "real_arith =
     \<lparr>a_dot = (\<lambda>xs ys. sum_list (map2 (*) xs ys)), a_div = (/), a_sqrt = sqrt,
      a_of_int = real_of_int, a_softmax = softmax_row\<rparr>"

definition matmul_g :: "'a arith \<Rightarrow> 'a array \<Rightarrow> 'a array \<Rightarrow> error + 'a array" where
  "matmul_g ar A B =
     (if ncols A \<noteq> nrows B then Inl DotShape
      else Inr (tabulate2 (nrows A) (ncols B)
                  (\<lambda>i j. a_dot ar (map (\<lambda>k. entry A i k) [0..<ncols A])
                                   (map (\<lambda>k. entry B k j) [0..<nrows B]))))"

definition divide_scalar_g :: "'a arith \<Rightarrow> 'a array \<Rightarrow> 'a \<Rightarrow> 'a array" where
  "divide_scalar_g ar A s = tabulate2 (nrows A) (ncols A) (\<lambda>i j. a_div ar (entry A i j) s)"

definition where_array_g :: "bool array \<Rightarrow> 'a \<Rightarrow> 'a array \<Rightarrow> error + 'a array" where
  "where_array_g M c A =
     (case (broadcast_dim (nrows M) (nrows A), broadcast_dim (ncols M) (ncols A)) of
        (Some r, Some n) \<Rightarrow>
          Inr (tabulate2 r n (\<lambda>i j.
                 if entry M (bidx (nrows M) i) (bidx (ncols M) j) then c
                 else entry A (bidx (nrows A) i) (bidx (ncols A) j)))
      | _ \<Rightarrow> Inl BroadcastShape)"

definition softmax_g :: "'a arith \<Rightarrow> 'a array \<Rightarrow> int \<Rightarrow> error + 'a array" where
  "softmax_g ar A axis =
     bind_err (canonicalize_axis axis) (\<lambda>ax.
       Inr (if ax = 1 then map_rows (a_softmax ar) A
            else transpose_array (map_rows (a_softmax ar) (transpose_array A))))"

definition Attention_call_g ::
  "'a arith \<Rightarrow> 'a attention_module \<Rightarrow> 'a array \<Rightarrow> 'a array \<Rightarrow> 'a array
     \<Rightarrow> bool array option \<Rightarrow> error + 'a array" where
  "Attention_call_g ar self encodings_for_q encodings_for_k encodings_for_v mask_opt =
     bind_err (matmul_g ar encodings_for_q (W_q self)) (\<lambda>q.
     bind_err (matmul_g ar encodings_for_k (W_k self)) (\<lambda>k.
     bind_err (matmul_g ar encodings_for_v (W_v self)) (\<lambda>v.
     bind_err (swapaxes k (row_dim self) (col_dim self)) (\<lambda>k_t.
     bind_err (matmul_g ar q k_t) (\<lambda>sims.
     bind_err (case mask_opt of
                 None \<Rightarrow>
                   Inr (divide_scalar_g ar sims (a_sqrt ar (a_of_int ar (d_model self))))
               | Some m \<Rightarrow>
                   where_array_g m (a_of_int ar (- 1000000000))
                     (divide_scalar_g ar sims (a_sqrt ar (a_of_int ar (d_model self)))))
       (\<lambda>scaled_sims.
     bind_err (softmax_g ar scaled_sims (col_dim self)) (\<lambda>attention_percents.
       matmul_g ar attention_percents v)))))))"

definition MaskedSelfAttention_call_g ::
  "'a arith \<Rightarrow> 'a attention_module \<Rightarrow> 'a array \<Rightarrow> bool array option \<Rightarrow> error + 'a array" where
  "MaskedSelfAttention_call_g ar self token_encodings mask_opt =
     bind_err (matmul_g ar token_encodings (W_q self)) (\<lambda>q.
     bind_err (matmul_g ar token_encodings (W_k self)) (\<lambda>k.
     bind_err (matmul_g ar token_encodings (W_v self)) (\<lambda>v.
     bind_err (swapaxes k (row_dim self) (col_dim self)) (\<lambda>k_t.
     bind_err (matmul_g ar q k_t) (\<lambda>sims.
     bind_err (case mask_opt of
                 None \<Rightarrow>
                   Inr (divide_scalar_g ar sims (a_sqrt ar (a_of_int ar (d_model self))))
               | Some m \<Rightarrow>
                   where_array_g m (a_of_int ar (- 1000000000))
                     (divide_scalar_g ar sims (a_sqrt ar (a_of_int ar (d_model self)))))
       (\<lambda>scaled_sims.
     bind_err (softmax_g ar scaled_sims (col_dim self)) (\<lambda>attention_percents.
       matmul_g ar attention_percents v)))))))"

section \<open>Valid configurations and the specification's formulas\<close>

text \<open>
  A head is well formed when its width is at least 1, its row axis is axis 0 and its column
  axis is axis 1 of a rank-2 array (written 0 or \<open>-2\<close>, and 1 or \<open>-1\<close>), and its three weight
  matrices are square of that width. Inputs are valid for a head when they have the shapes
  the specification asks for: feature dimension \<open>d\<close>, one sequence length for keys and
  values, and a mask, when there is one, of shape \<open>(n_q, n_k)\<close>.
\<close>

definition wf_head :: "attention \<Rightarrow> bool" where
  "wf_head h \<longleftrightarrow>
     1 \<le> d_model h \<and>
     canonicalize_axis (row_dim h) = Inr 0 \<and> canonicalize_axis (col_dim h) = Inr 1 \<and>
     nrows (W_q h) = nat (d_model h) \<and> ncols (W_q h) = nat (d_model h) \<and>
     nrows (W_k h) = nat (d_model h) \<and> ncols (W_k h) = nat (d_model h) \<and>
     nrows (W_v h) = nat (d_model h) \<and> ncols (W_v h) = nat (d_model h)"

definition valid_inputs ::
  "attention \<Rightarrow> real array \<Rightarrow> real array \<Rightarrow> real array \<Rightarrow> bool array option \<Rightarrow> bool" where
  "valid_inputs h eq ek ev mask_opt \<longleftrightarrow>
     ncols eq = nat (d_model h) \<and> ncols ek = nat (d_model h) \<and> ncols ev = nat (d_model h) \<and>
     nrows ev = nrows ek \<and>
     (case mask_opt of None \<Rightarrow> True | Some m \<Rightarrow> nrows m = nrows eq \<and> ncols m = nrows ek)"

text \<open>
  The formulas of the specification (section 4.1, steps 1 to 6), entry by entry:
  the projection \<open>X \<cdot> W\<close>; the scaled scores \<open>Q \<cdot> K\<^sup>T / sqrt d\<close> with \<open>-1e9\<close> at the masked
  positions; the weights, the softmax of a row with its maximum subtracted; and the output
  \<open>weights \<cdot> V\<close> of shape \<open>(n_q, d)\<close>.
\<close>

definition spec_project :: "real array \<Rightarrow> real array \<Rightarrow> nat \<Rightarrow> nat \<Rightarrow> real" where
  "spec_project X W i c = (\<Sum>a<ncols X. entry X i a * entry W a c)"

definition spec_scores ::
  "attention \<Rightarrow> real array \<Rightarrow> real array \<Rightarrow> bool array option \<Rightarrow> nat \<Rightarrow> nat \<Rightarrow> real" where
  "spec_scores h eq ek mask_opt i j =
     (let s = (\<Sum>c<nat (d_model h). spec_project eq (W_q h) i c * spec_project ek (W_k h) j c)
                / sqrt (real_of_int (d_model h))
      in case mask_opt of
           None \<Rightarrow> s
         | Some m \<Rightarrow> if entry m i j then - 1000000000 else s)"

definition spec_weights :: "(nat \<Rightarrow> nat \<Rightarrow> real) \<Rightarrow> nat \<Rightarrow> nat \<Rightarrow> nat \<Rightarrow> real" where
  "spec_weights S n i j =
     exp (S i j - Max (S i ` {..<n})) / (\<Sum>l<n. exp (S i l - Max (S i ` {..<n})))"

definition spec_attention ::
  "attention \<Rightarrow> real array \<Rightarrow> real array \<Rightarrow> real array \<Rightarrow> bool array option \<Rightarrow> real array" where
  "spec_attention h eq ek ev mask_opt =
     tabulate2 (nrows eq) (nat (d_model h))
       (\<lambda>i c. \<Sum>j<nrows ek. spec_weights (spec_scores h eq ek mask_opt) (nrows ek) i j
                                * spec_project ev (W_v h) j c)"

text \<open>
  The same conditions and formulas over an arbitrary number type: the entry \<open>(i, c)\<close> of a
  product is the contraction of row \<open>i\<close> with column \<open>c\<close>, and the weights of a row are the
  softmax of the row of scores.
\<close>

definition wf_head_g :: "'a attention_module \<Rightarrow> bool" where
  "wf_head_g h \<longleftrightarrow>
     1 \<le> d_model h \<and>
     canonicalize_axis (row_dim h) = Inr 0 \<and> canonicalize_axis (col_dim h) = Inr 1 \<and>
     nrows (W_q h) = nat (d_model h) \<and> ncols (W_q h) = nat (d_model h) \<and>
     nrows (W_k h) = nat (d_model h) \<and> ncols (W_k h) = nat (d_model h) \<and>
     nrows (W_v h) = nat (d_model h) \<and> ncols (W_v h) = nat (d_model h)"

definition valid_inputs_g ::
  "'a attention_module \<Rightarrow> 'a array \<Rightarrow> 'a array \<Rightarrow> 'a array \<Rightarrow> bool array option \<Rightarrow> bool" where
  "valid_inputs_g h eq ek ev mask_opt \<longleftrightarrow>
     ncols eq = nat (d_model h) \<and> ncols ek = nat (d_model h) \<and> ncols ev = nat (d_model h) \<and>
     nrows ev = nrows ek \<and>
     (case mask_opt of None \<Rightarrow> True | Some m \<Rightarrow> nrows m = nrows eq \<and> ncols m = nrows ek)"

definition spec_project_g :: "'a arith \<Rightarrow> 'a array \<Rightarrow> 'a array \<Rightarrow> nat \<Rightarrow> nat \<Rightarrow> 'a" where
  "spec_project_g ar X W i c =
     a_dot ar (map (\<lambda>a. entry X i a) [0..<ncols X]) (map (\<lambda>a. entry W a c) [0..<nrows W])"

definition spec_scores_g ::
  "'a arith \<Rightarrow> 'a attention_module \<Rightarrow> 'a array \<Rightarrow> 'a array \<Rightarrow> bool array option
     \<Rightarrow> nat \<Rightarrow> nat \<Rightarrow> 'a" where
  "spec_scores_g ar h eq ek mask_opt i j =
     (let s = a_div ar
                (a_dot ar (map (\<lambda>c. spec_project_g ar eq (W_q h) i c) [0..<nat (d_model h)])
                          (map (\<lambda>c. spec_project_g ar ek (W_k h) j c) [0..<nat (d_model h)]))
                (a_sqrt ar (a_of_int ar (d_model h)))
      in case mask_opt of
           None \<Rightarrow> s
         | Some m \<Rightarrow> if entry m i j then a_of_int ar (- 1000000000) else s)"

definition spec_weights_g :: "'a arith \<Rightarrow> (nat \<Rightarrow> nat \<Rightarrow> 'a) \<Rightarrow> nat \<Rightarrow> nat \<Rightarrow> nat \<Rightarrow> 'a" where
  "spec_weights_g ar S n i j = a_softmax ar (map (\<lambda>l. S i l) [0..<n]) ! j"

definition spec_attention_g ::
  "'a arith \<Rightarrow> 'a attention_module \<Rightarrow> 'a array \<Rightarrow> 'a array \<Rightarrow> 'a array
     \<Rightarrow> bool array option \<Rightarrow> 'a array" where
  "spec_attention_g ar h eq ek ev mask_opt =
     tabulate2 (nrows eq) (nat (d_model h))
       (\<lambda>i c. a_dot ar
                 (map (\<lambda>j. spec_weights_g ar (spec_scores_g ar h eq ek mask_opt) (nrows ek) i j)
                    [0..<nrows ek])
                 (map (\<lambda>j. spec_project_g ar ev (W_v h) j c) [0..<nrows ek]))"

text \<open>
  The causal mask of the masked self-attention notebook, \<^verbatim>\<open>jnp.tril(jnp.ones((n, n))) == 0\<close>:
  true exactly above the diagonal.
\<close>

definition causal_mask :: "nat \<Rightarrow> bool array" where
  "causal_mask n = tabulate2 n n (\<lambda>i j. i < j)"

section \<open>Concrete inputs\<close>

text \<open>
  Small heads, inputs and masks on which the definitions above are evaluated: a key type of
  natural numbers with a sampler that fills a matrix with the successor of the key, heads of
  width 1, inputs of one and two tokens.
\<close>

definition ex_random :: "nat jax_random" where
  "ex_random = \<lparr>fold_in = (\<lambda>k n. k + n), uniform = (\<lambda>k s i j. real (Suc k))\<rparr>"

definition ex_rngs :: "nat Rngs" where
  "ex_rngs = \<lparr>rng_key = 0, rng_count = 0\<rparr>"

definition ex_ones :: "real array" where
  "ex_ones = \<lparr>nrows = 1, ncols = 1, elems = [[1]]\<rparr>"

definition ex_head :: attention where
  "ex_head = \<lparr>W_q = ex_ones, W_k = ex_ones, W_v = ex_ones, row_dim = 0, col_dim = 1, d_model = 1\<rparr>"

definition ex_mask_false :: "bool array" where
  "ex_mask_false = \<lparr>nrows = 1, ncols = 1, elems = [[False]]\<rparr>"


definition ex_col2 :: "real array" where
  "ex_col2 = \<lparr>nrows = 2, ncols = 1, elems = [[1], [1]]\<rparr>"

definition ex_mask_row :: "bool array" where
  "ex_mask_row = \<lparr>nrows = 1, ncols = 2, elems = [[True, False]]\<rparr>"

definition ex_mask_top :: "bool array" where
  "ex_mask_top = \<lparr>nrows = 2, ncols = 2, elems = [[True, True], [False, False]]\<rparr>"

definition ex_twos :: "real array" where
  "ex_twos = \<lparr>nrows = 1, ncols = 1, elems = [[2]]\<rparr>"

definition ex_head2 :: attention where
  "ex_head2 = \<lparr>W_q = ex_twos, W_k = ex_twos, W_v = ex_twos, row_dim = 0, col_dim = 1, d_model = 1\<rparr>"

definition ex_mha2 :: MultiHeadAttention where
  "ex_mha2 = \<lparr>heads = [ex_head, ex_head2], mh_col_dim = 1\<rparr>"

definition ex_out2 :: "real array" where
  "ex_out2 = \<lparr>nrows = 2, ncols = 2, elems = [[1, 2], [1, 2]]\<rparr>"

definition ex_eye4 :: "real array" where
  "ex_eye4 = \<lparr>nrows = 4, ncols = 4,
              elems = [[1, 0, 0, 0], [0, 1, 0, 0], [0, 0, 1, 0], [0, 0, 0, 1]]\<rparr>"

definition ex_head4 :: attention where
  "ex_head4 = \<lparr>W_q = ex_eye4, W_k = ex_eye4, W_v = ex_eye4,
               row_dim = 0, col_dim = 1, d_model = 4\<rparr>"

definition ex_tokens :: "real array" where
  "ex_tokens = \<lparr>nrows = 2, ncols = 4, elems = [[1, 0, 0, 0], [0, 2, 0, 0]]\<rparr>"

section \<open>Basic facts about the array operations\<close>

lemma bind_err_Inl [simp]: "bind_err (Inl e) f = Inl e"
  by (simp add: bind_err_def)

lemma bind_err_Inr [simp]: "bind_err (Inr x) f = f x"
  by (simp add: bind_err_def)

lemma bind_err_eq_Inr: "bind_err m f = Inr y \<longleftrightarrow> (\<exists>x. m = Inr x \<and> f x = Inr y)"
  by (cases m) simp_all

lemma bind_err_eq_Inl:
  "bind_err m f = Inl e \<longleftrightarrow> m = Inl e \<or> (\<exists>x. m = Inr x \<and> f x = Inl e)"
  by (cases m) simp_all

lemma bind_err_assoc:
  "bind_err (bind_err m f) g = bind_err m (\<lambda>x. bind_err (f x) g)"
  by (cases m) simp_all

lemma nrows_tabulate2 [simp]: "nrows (tabulate2 r c f) = r"
  by (simp add: tabulate2_def)

lemma ncols_tabulate2 [simp]: "ncols (tabulate2 r c f) = c"
  by (simp add: tabulate2_def)

lemma elems_tabulate2_nth: "i < r \<Longrightarrow> elems (tabulate2 r c f) ! i = map (f i) [0..<c]"
  by (simp add: tabulate2_def)

lemma entry_tabulate2 [simp]: "i < r \<Longrightarrow> j < c \<Longrightarrow> entry (tabulate2 r c f) i j = f i j"
  by (simp add: tabulate2_def entry_def)

lemma wf_tabulate2 [simp]: "wf_array (tabulate2 r c f)"
  by (simp add: tabulate2_def wf_array_def list_all_iff)

lemma tabulate2_eqI:
  "r = r' \<Longrightarrow> c = c' \<Longrightarrow> (\<And>i j. i < r' \<Longrightarrow> j < c' \<Longrightarrow> f i j = g i j)
   \<Longrightarrow> tabulate2 r c f = tabulate2 r' c' g"
  by (simp add: tabulate2_def)

lemma row_tabulate2:
  "i < r \<Longrightarrow> map (\<lambda>k. entry (tabulate2 r c f) i k) [0..<c] = map (\<lambda>k. f i k) [0..<c]"
  by simp

lemma col_tabulate2:
  "j < c \<Longrightarrow> map (\<lambda>k. entry (tabulate2 r c f) k j) [0..<r] = map (\<lambda>k. f k j) [0..<r]"
  by simp

lemma matmul_Inr: "matmul A B = Inr C \<Longrightarrow> wf_array C \<and> nrows C = nrows A \<and> ncols C = ncols B"
  by (auto simp: matmul_def split: if_splits)

lemma matmul_Inl: "matmul A B = Inl e \<Longrightarrow> e = DotShape"
  by (simp add: matmul_def split: if_splits)

lemma matmul_tab_tab:
  "matmul (tabulate2 r n f) (tabulate2 n c g) = Inr (tabulate2 r c (\<lambda>i j. \<Sum>k<n. f i k * g k j))"
  unfolding matmul_def by (auto intro!: tabulate2_eqI)

lemma matmul_left_tab:
  "ncols A = nrows B \<Longrightarrow> matmul A B = Inr (tabulate2 (nrows A) (ncols B) (spec_project A B))"
  unfolding matmul_def by (auto intro!: tabulate2_eqI simp: spec_project_def)

lemma transpose_tab: "transpose_array (tabulate2 r c f) = tabulate2 c r (\<lambda>i j. f j i)"
  unfolding transpose_array_def by (rule tabulate2_eqI) simp_all

lemma divide_scalar_tab: "divide_scalar (tabulate2 r c f) s = tabulate2 r c (\<lambda>i j. f i j / s)"
  unfolding divide_scalar_def by (rule tabulate2_eqI) simp_all

lemma bidx_less [simp]: "i < n \<Longrightarrow> bidx n i = i"
  by (auto simp: bidx_def)

lemma broadcast_dim_same [simp]: "broadcast_dim n n = Some n"
  by (simp add: broadcast_dim_def)

lemma where_array_tab:
  "nrows M = r \<Longrightarrow> ncols M = c \<Longrightarrow>
   where_array M x (tabulate2 r c f) = Inr (tabulate2 r c (\<lambda>i j. if entry M i j then x else f i j))"
  unfolding where_array_def by (auto intro!: tabulate2_eqI)

lemma where_array_Inl: "where_array M c A = Inl e \<Longrightarrow> e = BroadcastShape"
  by (simp add: where_array_def split: option.splits)

lemma softmax_row_map:
  "softmax_row (map f [0..<n]) = map (\<lambda>j. exp (f j - Max (f ` {..<n})) / (\<Sum>l<n. exp (f l - Max (f ` {..<n})))) [0..<n]"
proof -
  have s: "set (map f [0..<n]) = f ` {..<n}" by (simp add: atLeast0LessThan)
  have "sum_list (map (\<lambda>x. exp (x - Max (f ` {..<n}))) (map f [0..<n])) = (\<Sum>l<n. exp (f l - Max (f ` {..<n})))"
    by (simp add: interv_sum_list_conv_sum_set_nat comp_def atLeast0LessThan)
  then show ?thesis
    unfolding softmax_row_def Let_def s by (simp add: comp_def)
qed

lemma map_rows_softmax_tab:
  "map_rows softmax_row (tabulate2 r n S) = tabulate2 r n (spec_weights S n)"
  unfolding map_rows_def
  by (rule tabulate2_eqI) (simp_all add: elems_tabulate2_nth softmax_row_map spec_weights_def)

lemma map_rows_tab:
  "map_rows sm (tabulate2 r n S) = tabulate2 r n (\<lambda>i j. sm (map (\<lambda>l. S i l) [0..<n]) ! j)"
  unfolding map_rows_def
  by (rule tabulate2_eqI) (simp_all add: elems_tabulate2_nth)

lemma softmax_Inr_axis: "softmax A a = Inr B \<Longrightarrow> \<exists>ax. canonicalize_axis a = Inr ax"
  by (auto simp: softmax_def bind_err_eq_Inr)

lemma concatenate_single:
  assumes "wf_array A" "canonicalize_axis a = Inr ax"
  shows "concatenate [A] a = Inr A"
proof -
  have "map (\<lambda>i. elems A ! i) [0..<nrows A] = elems A"
    using assms(1) by (auto simp: wf_array_def intro: nth_equalityI)
  then show ?thesis using assms(2) by (simp add: concatenate_def)
qed

lemma concatenate_axis1:
  assumes "arrays \<noteq> []" and "canonicalize_axis a = Inr 1"
    and "\<forall>B\<in>set arrays. nrows B = r"
  shows "concatenate arrays a =
           Inr \<lparr>nrows = r, ncols = sum_list (map ncols arrays),
                elems = map (\<lambda>i. concat (map (\<lambda>B. elems B ! i) arrays)) [0..<r]\<rparr>"
  using assms by (cases arrays) (auto simp: concatenate_def list_all_iff)

lemma nth_concat_uniform:
  "\<forall>xs\<in>set xss. length xs = d \<Longrightarrow> t < length xss \<Longrightarrow> c < d \<Longrightarrow>
   concat xss ! (t * d + c) = xss ! t ! c"
proof (induction xss arbitrary: t)
  case Nil
  then show ?case by simp
next
  case (Cons xs xss)
  show ?case
  proof (cases t)
    case 0
    with Cons.prems show ?thesis by (simp add: nth_append)
  next
    case (Suc t')
    with Cons.prems have "concat xss ! (t' * d + c) = xss ! t' ! c"
      by (intro Cons.IH) auto
    with Suc Cons.prems show ?thesis by (simp add: nth_append)
  qed
qed

lemma sum_list_const: "\<forall>x\<in>set xs. f x = (d::nat) \<Longrightarrow> sum_list (map f xs) = length xs * d"
  by (induction xs) simp_all

section \<open>The operations over an arbitrary number type\<close>

lemma matmul_g_tab_tab:
  "matmul_g ar (tabulate2 r n f) (tabulate2 n c g) =
     Inr (tabulate2 r c (\<lambda>i j. a_dot ar (map (\<lambda>k. f i k) [0..<n]) (map (\<lambda>k. g k j) [0..<n])))"
  unfolding matmul_g_def
  by (auto intro!: tabulate2_eqI simp: row_tabulate2 col_tabulate2)

lemma matmul_g_left_tab:
  "ncols A = nrows B \<Longrightarrow>
   matmul_g ar A B = Inr (tabulate2 (nrows A) (ncols B) (spec_project_g ar A B))"
  unfolding matmul_g_def by (auto intro!: tabulate2_eqI simp: spec_project_g_def)

lemma divide_scalar_g_tab:
  "divide_scalar_g ar (tabulate2 r c f) s = tabulate2 r c (\<lambda>i j. a_div ar (f i j) s)"
  unfolding divide_scalar_g_def by (rule tabulate2_eqI) simp_all

lemma where_array_g_tab:
  "nrows M = r \<Longrightarrow> ncols M = c \<Longrightarrow>
   where_array_g M x (tabulate2 r c f)
     = Inr (tabulate2 r c (\<lambda>i j. if entry M i j then x else f i j))"
  unfolding where_array_g_def by (auto intro!: tabulate2_eqI)

lemma sum_list_map2_upt:
  "sum_list (map2 (*) (map f [0..<n]) (map g [0..<n])) = (\<Sum>k<n. f k * (g k :: real))"
proof -
  have "map2 (*) (map f [0..<n]) (map g [0..<n]) = map (\<lambda>k. f k * g k) [0..<n]"
    by (simp add: zip_map_map map_zip_map2 zip_same_conv_map)
  then show ?thesis
    by (simp add: interv_sum_list_conv_sum_set_nat atLeast0LessThan)
qed

lemma real_arith_sel:
  "a_dot real_arith = (\<lambda>xs ys. sum_list (map2 (*) xs ys))"
  "a_div real_arith = (/)" "a_sqrt real_arith = sqrt" "a_of_int real_arith = real_of_int"
  "a_softmax real_arith = softmax_row"
  by (simp_all add: real_arith_def)

lemma matmul_g_real: "matmul_g real_arith A B = matmul A B"
  unfolding matmul_g_def matmul_def
  by (auto intro!: tabulate2_eqI simp: real_arith_sel sum_list_map2_upt)

lemma divide_scalar_g_real: "divide_scalar_g real_arith A s = divide_scalar A s"
  unfolding divide_scalar_g_def divide_scalar_def real_arith_sel ..

lemma where_array_g_real: "where_array_g M c A = where_array M c A"
  by (simp add: where_array_g_def where_array_def)

lemma softmax_g_real: "softmax_g real_arith A axis = softmax A axis"
  unfolding softmax_g_def softmax_def real_arith_sel ..

section \<open>The weights of a constant row\<close>

lemma spec_weights_const:
  assumes "\<forall>l<n. S i l = c" and "j < n"
  shows "spec_weights S n i j = 1 / real n"
proof -
  have img: "S i ` {..<n} = {c}" using assms by auto
  have "(\<Sum>l<n. exp (S i l - c)) = (\<Sum>l<n. 1)"
    by (rule sum.cong) (use assms in auto)
  then show ?thesis using assms by (simp add: spec_weights_def img)
qed

lemma spec_scores_masked:
  "entry m i j \<Longrightarrow> spec_scores h eq ek (Some m) i j = - 1000000000"
  by (simp add: spec_scores_def)

section \<open>Construction\<close>

lemma Attention_init_Inr:
  assumes "Attention_init J d r c rngs = Inr (h, rngs')"
  shows "row_dim h = r \<and> col_dim h = c \<and> d_model h = d \<and> 0 \<le> d
         \<and> W_q h = tabulate2 (nat d) (nat d) (uniform J (fst (Rngs_params J rngs)) (nat d, nat d))
         \<and> W_k h = W_q h \<and> W_v h = W_q h \<and> rngs' = snd (Rngs_params J rngs)"
  using assms
  by (auto simp: Attention_init_def random_uniform_def split: prod.splits if_splits)

lemma SelfAttention_init_eq: "SelfAttention_init = Attention_init"
  by (intro ext) (simp add: SelfAttention_init_def Attention_init_def)

lemma MaskedSelfAttention_init_eq: "MaskedSelfAttention_init = Attention_init"
  by (intro ext) (simp add: MaskedSelfAttention_init_def Attention_init_def)

lemma init_heads_one:
  "init_heads J d r c (Suc 0) rngs = Inr (hs, rngs') \<longleftrightarrow>
     (\<exists>h. hs = [h] \<and> Attention_init J d r c rngs = Inr (h, rngs'))"
  by (cases "Attention_init J d r c rngs") auto

lemma init_heads_Inr:
  "init_heads J d r c n rngs = Inr (hs, rngs') \<Longrightarrow>
   length hs = n \<and> (\<forall>h\<in>set hs. row_dim h = r \<and> col_dim h = c \<and> d_model h = d
      \<and> W_k h = W_q h \<and> W_v h = W_q h
      \<and> nrows (W_q h) = nat d \<and> ncols (W_q h) = nat d)"
proof (induction n arbitrary: rngs hs)
  case 0
  then show ?case by simp
next
  case (Suc n)
  from Suc.prems obtain h r1 hs' where
    h: "Attention_init J d r c rngs = Inr (h, r1)"
    and hs': "init_heads J d r c n r1 = Inr (hs', rngs')" and hs: "hs = h # hs'"
    by (auto simp: bind_err_eq_Inr)
  from Suc.IH [OF hs'] Attention_init_Inr [OF h] hs show ?case by auto
qed

lemma MultiHeadAttention_init_wf:
  assumes "MultiHeadAttention_init J d r c n rngs = Inr (mha, rngs')"
    and "1 \<le> d" and "canonicalize_axis r = Inr 0" and "canonicalize_axis c = Inr 1"
  shows "length (heads mha) = nat n \<and> mh_col_dim mha = c
         \<and> (\<forall>h\<in>set (heads mha). wf_head h \<and> d_model h = d)"
proof -
  from assms(1) obtain hs where hs: "init_heads J d r c (nat n) rngs = Inr (hs, rngs')"
    and mha: "mha = \<lparr>heads = hs, mh_col_dim = c\<rparr>"
    by (auto simp: MultiHeadAttention_init_def bind_err_eq_Inr)
  from init_heads_Inr [OF hs] assms(2-4) mha show ?thesis
    by (auto simp: wf_head_def)
qed

section \<open>The calls\<close>

lemma Attention_locals_valid:
  assumes h: "wf_head h" and v: "valid_inputs h eq ek ev mask_opt"
  shows "Attention_locals h eq ek ev mask_opt =
           Inr (tabulate2 (nrows eq) (nrows ek)
                  (spec_weights (spec_scores h eq ek mask_opt) (nrows ek)),
                tabulate2 (nrows ek) (nat (d_model h)) (spec_project ev (W_v h)))"
proof -
  let ?d = "nat (d_model h)"
  have q: "matmul eq (W_q h) = Inr (tabulate2 (nrows eq) ?d (spec_project eq (W_q h)))"
    using h v by (simp add: matmul_left_tab wf_head_def valid_inputs_def)
  have k: "matmul ek (W_k h) = Inr (tabulate2 (nrows ek) ?d (spec_project ek (W_k h)))"
    using h v by (simp add: matmul_left_tab wf_head_def valid_inputs_def)
  have vv: "matmul ev (W_v h) = Inr (tabulate2 (nrows ek) ?d (spec_project ev (W_v h)))"
    using h v by (simp add: matmul_left_tab wf_head_def valid_inputs_def)
  have sw: "swapaxes (tabulate2 (nrows ek) ?d (spec_project ek (W_k h))) (row_dim h) (col_dim h)
              = Inr (tabulate2 ?d (nrows ek) (\<lambda>c j. spec_project ek (W_k h) j c))"
    using h by (simp add: swapaxes_def wf_head_def transpose_tab)
  let ?S = "\<lambda>i j. (\<Sum>c<?d. spec_project eq (W_q h) i c * spec_project ek (W_k h) j c)
                   / sqrt (real_of_int (d_model h))"
  let ?sims = "tabulate2 (nrows eq) (nrows ek)
                 (\<lambda>i j. \<Sum>c<?d. spec_project eq (W_q h) i c * spec_project ek (W_k h) j c)"
  have msk: "(case mask_opt of
                 None \<Rightarrow> Inr (divide_scalar ?sims (sqrt (real_of_int (d_model h))))
               | Some m \<Rightarrow> where_array m (- 1000000000)
                            (divide_scalar ?sims (sqrt (real_of_int (d_model h)))))
             = Inr (tabulate2 (nrows eq) (nrows ek) (spec_scores h eq ek mask_opt))"
  proof (cases mask_opt)
    case None
    then show ?thesis by (simp add: divide_scalar_tab spec_scores_def [abs_def])
  next
    case (Some m)
    with v have "nrows m = nrows eq" "ncols m = nrows ek" by (simp_all add: valid_inputs_def)
    then show ?thesis using Some
      by (simp add: divide_scalar_tab where_array_tab spec_scores_def [abs_def])
  qed
  have sm: "softmax (tabulate2 (nrows eq) (nrows ek) (spec_scores h eq ek mask_opt)) (col_dim h)
             = Inr (tabulate2 (nrows eq) (nrows ek)
                  (spec_weights (spec_scores h eq ek mask_opt) (nrows ek)))"
    using h by (simp add: softmax_def wf_head_def map_rows_softmax_tab)
  show ?thesis
    unfolding Attention_locals_def
    by (simp add: q k vv sw matmul_tab_tab msk sm)
qed

lemma Attention_call_valid:
  assumes "wf_head h" "valid_inputs h eq ek ev mask_opt"
  shows "Attention_call h eq ek ev mask_opt = Inr (spec_attention h eq ek ev mask_opt)"
  unfolding Attention_call_def Attention_locals_valid [OF assms]
  by (simp add: matmul_tab_tab spec_attention_def)

lemma MaskedSelfAttention_locals_eq:
  "MaskedSelfAttention_locals h x mask_opt = Attention_locals h x x x mask_opt"
  by (simp add: MaskedSelfAttention_locals_def Attention_locals_def)

lemma MaskedSelfAttention_call_eq:
  "MaskedSelfAttention_call h x mask_opt = Attention_call h x x x mask_opt"
  by (simp add: MaskedSelfAttention_call_def Attention_call_def MaskedSelfAttention_locals_eq)

lemma SelfAttention_call_eq: "SelfAttention_call h x = Attention_call h x x x None"
  by (simp add: SelfAttention_call_def Attention_call_def Attention_locals_def bind_err_assoc)

lemma Attention_call_wf: "Attention_call h eq ek ev m = Inr out \<Longrightarrow> wf_array out"
  by (auto simp: Attention_call_def bind_err_eq_Inr dest: matmul_Inr)

lemma Attention_call_axis:
  "Attention_call h eq ek ev m = Inr out \<Longrightarrow> \<exists>ax. canonicalize_axis (col_dim h) = Inr ax"
  by (auto simp: Attention_call_def Attention_locals_def bind_err_eq_Inr dest: softmax_Inr_axis)

lemma Attention_call_isl_iff:
  assumes "wf_head h"
  shows "isl (Attention_call h eq ek ev mask_opt) \<longleftrightarrow>
           ncols eq \<noteq> nat (d_model h) \<or> ncols ek \<noteq> nat (d_model h)
           \<or> ncols ev \<noteq> nat (d_model h)
           \<or> (case mask_opt of
                 None \<Rightarrow> nrows ek \<noteq> nrows ev
               | Some m \<Rightarrow>
                   (case (broadcast_dim (nrows m) (nrows eq), broadcast_dim (ncols m) (nrows ek)) of
                      (Some r, Some n) \<Rightarrow> n \<noteq> nrows ev
                    | _ \<Rightarrow> True))"
  using assms
  by (auto simp: Attention_call_def Attention_locals_def matmul_def swapaxes_def softmax_def
      where_array_def divide_scalar_def wf_head_def transpose_array_def map_rows_def
      split: option.splits)

lemma Attention_call_error_kind:
  assumes "wf_head h" and "Attention_call h eq ek ev mask_opt = Inl e"
  shows "e = DotShape \<or> e = BroadcastShape"
proof -
  have sw: "swapaxes A (row_dim h) (col_dim h) = Inr (transpose_array A)" for A :: "real array"
    using assms(1) by (simp add: swapaxes_def wf_head_def)
  have sm: "softmax A (col_dim h) = Inr (map_rows softmax_row A)" for A
    using assms(1) by (simp add: softmax_def wf_head_def)
  from assms(2) show ?thesis
    unfolding Attention_call_def Attention_locals_def
    by (auto simp: bind_err_eq_Inl sw sm dest: matmul_Inl where_array_Inl split: option.splits)
qed

lemma run_heads_valid:
  "\<forall>h\<in>set hs. wf_head h \<and> valid_inputs h eq ek ev None \<Longrightarrow>
   run_heads hs eq ek ev = Inr (map (\<lambda>h. spec_attention h eq ek ev None) hs)"
  by (induction hs) (simp_all add: Attention_call_valid)

lemma Attention_call_g_valid:
  assumes h: "wf_head_g h" and v: "valid_inputs_g h eq ek ev mask_opt"
  shows "Attention_call_g ar h eq ek ev mask_opt = Inr (spec_attention_g ar h eq ek ev mask_opt)"
proof -
  let ?d = "nat (d_model h)"
  let ?s = "a_sqrt ar (a_of_int ar (d_model h))"
  have q: "matmul_g ar eq (W_q h) = Inr (tabulate2 (nrows eq) ?d (spec_project_g ar eq (W_q h)))"
    using h v by (simp add: matmul_g_left_tab wf_head_g_def valid_inputs_g_def)
  have k: "matmul_g ar ek (W_k h) = Inr (tabulate2 (nrows ek) ?d (spec_project_g ar ek (W_k h)))"
    using h v by (simp add: matmul_g_left_tab wf_head_g_def valid_inputs_g_def)
  have vv: "matmul_g ar ev (W_v h) = Inr (tabulate2 (nrows ek) ?d (spec_project_g ar ev (W_v h)))"
    using h v by (simp add: matmul_g_left_tab wf_head_g_def valid_inputs_g_def)
  have sw: "swapaxes (tabulate2 (nrows ek) ?d (spec_project_g ar ek (W_k h)))
              (row_dim h) (col_dim h)
              = Inr (tabulate2 ?d (nrows ek) (\<lambda>c j. spec_project_g ar ek (W_k h) j c))"
    using h by (simp add: swapaxes_def wf_head_g_def transpose_tab)
  let ?sims = "tabulate2 (nrows eq) (nrows ek)
                 (\<lambda>i j. a_dot ar (map (\<lambda>c. spec_project_g ar eq (W_q h) i c) [0..<?d])
                                  (map (\<lambda>c. spec_project_g ar ek (W_k h) j c) [0..<?d]))"
  have msk: "(case mask_opt of
                 None \<Rightarrow> Inr (divide_scalar_g ar ?sims ?s)
               | Some m \<Rightarrow> where_array_g m (a_of_int ar (- 1000000000))
                            (divide_scalar_g ar ?sims ?s))
             = Inr (tabulate2 (nrows eq) (nrows ek) (spec_scores_g ar h eq ek mask_opt))"
  proof (cases mask_opt)
    case None
    then show ?thesis by (simp add: divide_scalar_g_tab spec_scores_g_def [abs_def])
  next
    case (Some m)
    with v have "nrows m = nrows eq" "ncols m = nrows ek" by (simp_all add: valid_inputs_g_def)
    then show ?thesis using Some
      by (simp add: divide_scalar_g_tab where_array_g_tab spec_scores_g_def [abs_def])
  qed
  have sm: "softmax_g ar (tabulate2 (nrows eq) (nrows ek) (spec_scores_g ar h eq ek mask_opt))
              (col_dim h)
             = Inr (tabulate2 (nrows eq) (nrows ek)
                  (spec_weights_g ar (spec_scores_g ar h eq ek mask_opt) (nrows ek)))"
    using h by (simp add: softmax_g_def wf_head_g_def map_rows_tab spec_weights_g_def [abs_def])
  show ?thesis
    unfolding Attention_call_g_def
    by (simp add: q k vv sw matmul_g_tab_tab msk sm spec_attention_g_def)
qed

lemma MaskedSelfAttention_call_g_eq:
  "MaskedSelfAttention_call_g ar h x mask_opt = Attention_call_g ar h x x x mask_opt"
  by (simp add: MaskedSelfAttention_call_g_def Attention_call_g_def)

lemma Attention_call_g_real:
  "Attention_call_g real_arith h eq ek ev mask_opt = Attention_call h eq ek ev mask_opt"
  unfolding Attention_call_g_def Attention_call_def Attention_locals_def
    matmul_g_real divide_scalar_g_real where_array_g_real softmax_g_real real_arith_sel
  by (cases mask_opt) (simp_all add: bind_err_assoc)

section \<open>The calls on concrete inputs\<close>

lemma ex_head_wf: "wf_head ex_head"
  by (simp add: wf_head_def ex_head_def ex_ones_def canonicalize_axis_def)

lemma ex_head2_wf: "wf_head ex_head2"
  by (simp add: wf_head_def ex_head2_def ex_twos_def canonicalize_axis_def)


lemma ex_valid_inputs2:
  "valid_inputs ex_head ex_ones ex_col2 ex_col2 (Some ex_mask_row)"
  "valid_inputs ex_head ex_col2 ex_col2 ex_col2 (Some ex_mask_top)"
  by (simp_all add: valid_inputs_def ex_head_def ex_ones_def ex_col2_def ex_mask_row_def
      ex_mask_top_def)

lemma ex_valid_inputs3:
  "valid_inputs ex_head ex_col2 ex_col2 ex_col2 None"
  "valid_inputs ex_head2 ex_col2 ex_col2 ex_col2 None"
  by (simp_all add: valid_inputs_def ex_head_def ex_head2_def ex_col2_def)


lemma ex_call_broadcast:
  "Attention_call ex_head ex_col2 ex_ones ex_ones (Some ex_mask_false) = Inr ex_col2"
  by (simp add: Attention_call_def Attention_locals_def matmul_def swapaxes_def softmax_def
      where_array_def divide_scalar_def transpose_array_def map_rows_def softmax_row_def
      canonicalize_axis_def broadcast_dim_def bidx_def tabulate2_def entry_def
      ex_head_def ex_col2_def ex_ones_def ex_mask_false_def numeral_2_eq_2 Let_def)

lemma ex_mha2_init:
  "MultiHeadAttention_init ex_random 1 0 1 2 ex_rngs
     = Inr (ex_mha2, \<lparr>rng_key = 0, rng_count = 2\<rparr>)"
  by (simp add: MultiHeadAttention_init_def Attention_init_def Rngs_params_def
      random_uniform_def ex_random_def ex_rngs_def ex_mha2_def ex_head_def ex_head2_def
      ex_ones_def ex_twos_def tabulate2_def numeral_2_eq_2)

lemma ex_mha2_call:
  "MultiHeadAttention_call ex_mha2 ex_col2 ex_col2 ex_col2 = Inr ex_out2"
  by (simp add: MultiHeadAttention_call_def ex_mha2_def
      Attention_call_valid [OF ex_head_wf ex_valid_inputs3(1)]
      Attention_call_valid [OF ex_head2_wf ex_valid_inputs3(2)])
    (simp add: concatenate_def canonicalize_axis_def spec_attention_def spec_weights_def
      spec_scores_def spec_project_def tabulate2_def entry_def ex_head_def ex_head2_def
      ex_col2_def ex_ones_def ex_twos_def ex_out2_def numeral_2_eq_2 lessThan_Suc)

lemma ex_head4_wf: "wf_head_g ex_head4"
  by (simp add: wf_head_g_def ex_head4_def ex_eye4_def canonicalize_axis_def)

lemma ex_tokens_valid:
  "valid_inputs_g ex_head4 ex_tokens ex_tokens ex_tokens (Some (causal_mask 2))"
  by (simp add: valid_inputs_g_def ex_head4_def ex_tokens_def causal_mask_def)

lemma ex_tokens_scores:
  "spec_scores_g real_arith ex_head4 ex_tokens ex_tokens (Some (causal_mask 2)) 0 0 = 1 / 2"
  "spec_scores_g real_arith ex_head4 ex_tokens ex_tokens (Some (causal_mask 2)) 0 1
     = - 1000000000"
  "spec_scores_g real_arith ex_head4 ex_tokens ex_tokens (Some (causal_mask 2)) 1 0 = 0"
  "spec_scores_g real_arith ex_head4 ex_tokens ex_tokens (Some (causal_mask 2)) 1 1 = 2"
  by (simp_all add: spec_scores_g_def spec_project_g_def real_arith_sel causal_mask_def
      tabulate2_def ex_head4_def ex_eye4_def ex_tokens_def entry_def eval_nat_numeral upt_rec)

lemma ex_tokens_out_row1:
  "entry (spec_attention_g real_arith ex_head4 ex_tokens ex_tokens ex_tokens
            (Some (causal_mask 2))) 1 0 = exp (- 2) / (exp (- 2) + 1)"
  "entry (spec_attention_g real_arith ex_head4 ex_tokens ex_tokens ex_tokens
            (Some (causal_mask 2))) 1 1 = 2 / (exp (- 2) + 1)"
  by (simp_all add: spec_attention_g_def spec_weights_g_def spec_scores_g_def spec_project_g_def
      real_arith_sel causal_mask_def softmax_row_def Let_def
      tabulate2_def ex_head4_def ex_eye4_def ex_tokens_def entry_def
      eval_nat_numeral upt_rec)

section \<open>The attention call against the specification\<close>

text \<open>
  C1: for every arithmetic, a well-formed head, a query source of shape \<open>(n_q, d)\<close>, key and
  value sources of shape \<open>(n_k, d)\<close> and an optional mask of shape \<open>(n_q, n_k)\<close>, the call
  returns the array the specification describes: \<open>weights \<cdot> V\<close> with \<open>Q\<close>, \<open>K\<close>, \<open>V\<close> the three
  projections, the scores \<open>Q \<cdot> K\<^sup>T\<close> divided by \<open>sqrt d\<close> with the masked entries replaced by
  \<open>-1e9\<close>, and the weights the softmax of each row of scores. The result has shape
  \<open>(n_q, d)\<close>. The masked self-attention call returns the same array when the three sources
  are one. The call is a function of the head and its arguments, and returns nothing else.
\<close>

theorem Attention_call_g_refines_spec:
  assumes "wf_head_g h" and "valid_inputs_g h eq ek ev mask_opt"
  shows "Attention_call_g ar h eq ek ev mask_opt
           = Inr (spec_attention_g ar h eq ek ev mask_opt)
         \<and> nrows (spec_attention_g ar h eq ek ev mask_opt) = nrows eq
         \<and> ncols (spec_attention_g ar h eq ek ev mask_opt) = nat (d_model h)
         \<and> wf_array (spec_attention_g ar h eq ek ev mask_opt)
         \<and> (ek = eq \<and> ev = eq \<longrightarrow>
              MaskedSelfAttention_call_g ar h eq mask_opt
                = Inr (spec_attention_g ar h eq ek ev mask_opt))"
  using Attention_call_g_valid [OF assms, of ar]
  by (auto simp: MaskedSelfAttention_call_g_eq spec_attention_g_def)

theorem Attention_call_g_refines_spec_witness:
  "wf_head_g ex_head4
   \<and> valid_inputs_g ex_head4 ex_tokens ex_tokens ex_tokens (Some (causal_mask 2))
   \<and> Attention_call_g real_arith ex_head4 ex_tokens ex_tokens ex_tokens (Some (causal_mask 2))
       = Inr (spec_attention_g real_arith ex_head4 ex_tokens ex_tokens ex_tokens
                (Some (causal_mask 2)))
   \<and> MaskedSelfAttention_call_g real_arith ex_head4 ex_tokens (Some (causal_mask 2))
       = Inr (spec_attention_g real_arith ex_head4 ex_tokens ex_tokens ex_tokens
                (Some (causal_mask 2)))
   \<and> Attention_call ex_head4 ex_tokens ex_tokens ex_tokens (Some (causal_mask 2))
       = Inr (spec_attention_g real_arith ex_head4 ex_tokens ex_tokens ex_tokens
                (Some (causal_mask 2)))
   \<and> nrows (spec_attention_g real_arith ex_head4 ex_tokens ex_tokens ex_tokens
                (Some (causal_mask 2))) = 2
   \<and> ncols (spec_attention_g real_arith ex_head4 ex_tokens ex_tokens ex_tokens
                (Some (causal_mask 2))) = 4
   \<and> spec_scores_g real_arith ex_head4 ex_tokens ex_tokens (Some (causal_mask 2)) 0 0 = 1 / 2
   \<and> spec_scores_g real_arith ex_head4 ex_tokens ex_tokens (Some (causal_mask 2)) 0 1
       = - 1000000000
   \<and> spec_scores_g real_arith ex_head4 ex_tokens ex_tokens (Some (causal_mask 2)) 1 0 = 0
   \<and> spec_scores_g real_arith ex_head4 ex_tokens ex_tokens (Some (causal_mask 2)) 1 1 = 2
   \<and> entry (spec_attention_g real_arith ex_head4 ex_tokens ex_tokens ex_tokens
              (Some (causal_mask 2))) 1 0 = exp (- 2) / (exp (- 2) + 1)
   \<and> entry (spec_attention_g real_arith ex_head4 ex_tokens ex_tokens ex_tokens
              (Some (causal_mask 2))) 1 1 = 2 / (exp (- 2) + 1)"
proof -
  note T = Attention_call_g_refines_spec [OF ex_head4_wf ex_tokens_valid, of real_arith]
  have n: "nrows ex_tokens = 2" and d: "nat (d_model ex_head4) = 4"
    by (simp_all add: ex_tokens_def ex_head4_def)
  from T have "Attention_call_g real_arith ex_head4 ex_tokens ex_tokens ex_tokens
                 (Some (causal_mask 2))
               = Inr (spec_attention_g real_arith ex_head4 ex_tokens ex_tokens ex_tokens
                        (Some (causal_mask 2)))"
    and "MaskedSelfAttention_call_g real_arith ex_head4 ex_tokens (Some (causal_mask 2))
               = Inr (spec_attention_g real_arith ex_head4 ex_tokens ex_tokens ex_tokens
                        (Some (causal_mask 2)))"
    and "nrows (spec_attention_g real_arith ex_head4 ex_tokens ex_tokens ex_tokens
                (Some (causal_mask 2))) = 2"
    and "ncols (spec_attention_g real_arith ex_head4 ex_tokens ex_tokens ex_tokens
                (Some (causal_mask 2))) = 4"
    by (simp_all add: n d)
  then show ?thesis
    using ex_head4_wf ex_tokens_valid ex_tokens_scores ex_tokens_out_row1
    by (simp add: Attention_call_g_real [symmetric])
qed

section \<open>The weights of a fully masked row\<close>




text \<open>
  C7: when row \<open>i\<close> of the mask is true at every key position, the call succeeds and every
  weight of row \<open>i\<close> is \<open>1 / n_k\<close>, with \<open>n_k\<close> the number of key positions: the row is the
  uniform distribution. The masked self-attention call is the case of one source.
\<close>

theorem fully_masked_row_uniform:
  assumes "wf_head h" and "valid_inputs h eq ek ev (Some m)"
    and "i < nrows eq" and "\<forall>j<nrows ek. entry m i j"
  shows "\<exists>attention_percents v out.
           Attention_locals h eq ek ev (Some m) = Inr (attention_percents, v)
         \<and> Attention_call h eq ek ev (Some m) = Inr out
         \<and> (\<forall>j<nrows ek. entry attention_percents i j = 1 / real (nrows ek))
         \<and> (ek = eq \<and> ev = eq \<longrightarrow>
               MaskedSelfAttention_locals h eq (Some m) = Inr (attention_percents, v)
             \<and> MaskedSelfAttention_call h eq (Some m) = Inr out)"
proof -
  let ?S = "spec_scores h eq ek (Some m)"
  have c: "\<forall>l<nrows ek. ?S i l = - 1000000000"
    using assms(4) by (simp add: spec_scores_masked)
  have "\<forall>j<nrows ek. entry (tabulate2 (nrows eq) (nrows ek) (spec_weights ?S (nrows ek))) i j
          = 1 / real (nrows ek)"
    using assms(3) spec_weights_const [of "nrows ek" ?S i "- 1000000000", OF c] by simp
  then show ?thesis
    using Attention_locals_valid [OF assms(1,2)] Attention_call_valid [OF assms(1,2)]
    by (auto simp: MaskedSelfAttention_locals_eq MaskedSelfAttention_call_eq)
qed

theorem fully_masked_row_uniform_witness:
  "wf_head ex_head \<and> valid_inputs ex_head ex_col2 ex_col2 ex_col2 (Some ex_mask_top)
   \<and> entry ex_mask_top 0 0 \<and> entry ex_mask_top 0 1
   \<and> (\<exists>attention_percents v out.
         MaskedSelfAttention_locals ex_head ex_col2 (Some ex_mask_top)
           = Inr (attention_percents, v)
       \<and> MaskedSelfAttention_call ex_head ex_col2 (Some ex_mask_top) = Inr out
       \<and> Attention_locals ex_head ex_col2 ex_col2 ex_col2 (Some ex_mask_top)
           = Inr (attention_percents, v)
       \<and> entry attention_percents 0 0 = 1 / 2 \<and> entry attention_percents 0 1 = 1 / 2)"
proof -
  have i: "0 < nrows ex_col2" and n: "nrows ex_col2 = 2"
    by (simp_all add: ex_col2_def)
  have m: "entry ex_mask_top 0 0" "entry ex_mask_top 0 1"
    by (simp_all add: ex_mask_top_def entry_def)
  have "\<forall>j<nrows ex_col2. entry ex_mask_top 0 j"
    using m by (auto simp: n less_2_cases_iff)
  from fully_masked_row_uniform [OF ex_head_wf ex_valid_inputs2(2) i this]
  obtain P v out where
    "Attention_locals ex_head ex_col2 ex_col2 ex_col2 (Some ex_mask_top) = Inr (P, v)"
    "MaskedSelfAttention_locals ex_head ex_col2 (Some ex_mask_top) = Inr (P, v)"
    "MaskedSelfAttention_call ex_head ex_col2 (Some ex_mask_top) = Inr out"
    "\<forall>j<nrows ex_col2. entry P 0 j = 1 / real (nrows ex_col2)"
    by blast
  then have "MaskedSelfAttention_locals ex_head ex_col2 (Some ex_mask_top) = Inr (P, v)
       \<and> MaskedSelfAttention_call ex_head ex_col2 (Some ex_mask_top) = Inr out
       \<and> Attention_locals ex_head ex_col2 ex_col2 ex_col2 (Some ex_mask_top) = Inr (P, v)
       \<and> entry P 0 0 = 1 / 2 \<and> entry P 0 1 = 1 / 2"
    by (simp add: n)
  with m show ?thesis
    using ex_head_wf ex_valid_inputs2(2) by blast
qed

section \<open>Failures\<close>

text \<open>
  C4, as amended: on a well-formed head the call fails exactly when the feature dimension of
  one of the three inputs differs from \<open>d\<close>, or a mask is supplied whose shape cannot be
  broadcast against \<open>(n_q, n_k)\<close>, or the number of key positions (after broadcasting against
  the mask, when there is one) differs from the sequence length of the value source. Without
  a mask, or with a mask of shape \<open>(n_q, n_k)\<close>, the last case is: key and value sources differ
  in sequence length. A mask of another shape that broadcasts, such as \<open>(1, n_k)\<close> or \<open>(1, 1)\<close>, is
  accepted. A failing call returns a shape failure of the library and no array.
\<close>

theorem Attention_call_fails_iff:
  assumes "wf_head h"
  shows "(isl (Attention_call h eq ek ev mask_opt) \<longleftrightarrow>
            ncols eq \<noteq> nat (d_model h) \<or> ncols ek \<noteq> nat (d_model h)
            \<or> ncols ev \<noteq> nat (d_model h)
            \<or> (case mask_opt of
                  None \<Rightarrow> nrows ek \<noteq> nrows ev
                | Some m \<Rightarrow>
                    (case (broadcast_dim (nrows m) (nrows eq),
                           broadcast_dim (ncols m) (nrows ek)) of
                       (Some r, Some n) \<Rightarrow> n \<noteq> nrows ev
                     | _ \<Rightarrow> True)))
         \<and> (\<forall>e. Attention_call h eq ek ev mask_opt = Inl e \<longrightarrow>
                e = DotShape \<or> e = BroadcastShape)"
  using Attention_call_isl_iff [OF assms] Attention_call_error_kind [OF assms] by blast

theorem Attention_call_fails_iff_witness:
  "wf_head ex_head
   \<and> isl (Attention_call ex_head ex_ones ex_col2 ex_ones None)
   \<and> isl (Attention_call ex_head ex_ones ex_ones ex_ones (Some ex_mask_top))
   \<and> \<not> isl (Attention_call ex_head ex_ones ex_ones ex_ones (Some ex_mask_false))"
proof -
  note T = Attention_call_fails_iff [OF ex_head_wf, THEN conjunct1]
  have "isl (Attention_call ex_head ex_ones ex_col2 ex_ones None)"
    unfolding T by (simp add: ex_head_def ex_ones_def ex_col2_def)
  moreover have "isl (Attention_call ex_head ex_ones ex_ones ex_ones (Some ex_mask_top))"
    unfolding T by (simp add: ex_head_def ex_ones_def ex_mask_top_def broadcast_dim_def)
  moreover have "\<not> isl (Attention_call ex_head ex_ones ex_ones ex_ones (Some ex_mask_false))"
    unfolding T by (simp add: ex_head_def ex_ones_def ex_mask_false_def broadcast_dim_def)
  ultimately show ?thesis
    using ex_head_wf by blast
qed

text \<open>
  C4, as stated, fails: with two query positions and one key position, a mask of shape
  \<open>(1, 1)\<close> differs from \<open>(n_q, n_k) = (2, 1)\<close>, and the call returns an array.
\<close>

theorem Attention_call_mask_shape_counterexample:
  "wf_head ex_head
   \<and> (nrows ex_mask_false, ncols ex_mask_false) \<noteq> (nrows ex_col2, nrows ex_ones)
   \<and> Attention_call ex_head ex_col2 ex_ones ex_ones (Some ex_mask_false) = Inr ex_col2"
  by (simp add: ex_head_wf ex_call_broadcast) (simp add: ex_mask_false_def ex_col2_def)

section \<open>Several heads\<close>

text \<open>
  C3: a \<^verbatim>\<open>MultiHeadAttention\<close> constructed with \<open>num_heads = 1\<close> holds exactly one head, and
  its call returns what that head's call returns on the same inputs without a mask: the same
  array or the same failure. Nothing is applied after the head.
\<close>

theorem MultiHeadAttention_single_head:
  assumes "MultiHeadAttention_init J d r c 1 rngs = Inr (mha, rngs')"
  shows "length (heads mha) = 1 \<and>
         MultiHeadAttention_call mha eq ek ev = Attention_call (hd (heads mha)) eq ek ev None"
proof -
  from assms obtain h where h: "heads mha = [h]" "mh_col_dim mha = c"
      and init: "Attention_init J d r c rngs = Inr (h, rngs')"
    by (auto simp: MultiHeadAttention_init_def bind_err_eq_Inr init_heads_one)
  have c: "col_dim h = c" using Attention_init_Inr [OF init] by simp
  have "MultiHeadAttention_call mha eq ek ev = Attention_call h eq ek ev None"
  proof (cases "Attention_call h eq ek ev None")
    case (Inl e)
    then show ?thesis by (simp add: MultiHeadAttention_call_def h)
  next
    case (Inr out)
    from Attention_call_axis [OF Inr] c obtain ax where "canonicalize_axis c = Inr ax" by auto
    with Attention_call_wf [OF Inr] have "concatenate [out] c = Inr out"
      by (rule concatenate_single)
    with Inr show ?thesis by (simp add: MultiHeadAttention_call_def h)
  qed
  with h show ?thesis by simp
qed

theorem MultiHeadAttention_single_head_witness:
  "MultiHeadAttention_init ex_random 1 0 1 1 ex_rngs
     = Inr (\<lparr>heads = [ex_head], mh_col_dim = 1\<rparr>, \<lparr>rng_key = 0, rng_count = 1\<rparr>)
   \<and> length (heads \<lparr>heads = [ex_head], mh_col_dim = 1\<rparr>) = 1
   \<and> MultiHeadAttention_call \<lparr>heads = [ex_head], mh_col_dim = 1\<rparr> ex_ones ex_ones ex_ones
       = Attention_call (hd (heads \<lparr>heads = [ex_head], mh_col_dim = 1\<rparr>)) ex_ones ex_ones ex_ones None"
proof -
  have init: "MultiHeadAttention_init ex_random 1 0 1 1 ex_rngs
     = Inr (\<lparr>heads = [ex_head], mh_col_dim = 1\<rparr>, \<lparr>rng_key = 0, rng_count = 1\<rparr>)"
    by (simp add: MultiHeadAttention_init_def Attention_init_def Rngs_params_def
        random_uniform_def ex_random_def ex_rngs_def ex_head_def ex_ones_def tabulate2_def)
  from MultiHeadAttention_single_head [OF init] init show ?thesis by simp
qed

text \<open>
  C8: for a \<^verbatim>\<open>MultiHeadAttention\<close> with at least one head, all heads well formed of width
  \<open>d\<close>, feature axis 1, and inputs valid for the heads, the call returns an array of shape
  \<open>(n_q, k \<cdot> d)\<close>, with \<open>k\<close> the number of heads, whose row \<open>i\<close> is the concatenation of the
  rows \<open>i\<close> of the heads' outputs in the order of the list of heads: column \<open>t \<cdot> d + c\<close> of the
  result is column \<open>c\<close> of the output of head \<open>t\<close>.
\<close>

theorem MultiHeadAttention_call_concat:
  assumes "heads mha \<noteq> []" and "canonicalize_axis (mh_col_dim mha) = Inr 1"
    and "\<forall>h\<in>set (heads mha). wf_head h \<and> d_model h = d \<and> valid_inputs h eq ek ev None"
  shows "\<exists>out outs.
           MultiHeadAttention_call mha eq ek ev = Inr out
         \<and> length outs = length (heads mha)
         \<and> (\<forall>t<length (heads mha).
              Attention_call (heads mha ! t) eq ek ev None = Inr (outs ! t))
         \<and> nrows out = nrows eq \<and> ncols out = length (heads mha) * nat d
         \<and> (\<forall>i<nrows eq. elems out ! i = concat (map (\<lambda>B. elems B ! i) outs))
         \<and> (\<forall>t<length (heads mha). \<forall>i<nrows eq. \<forall>c<nat d.
              entry out i (t * nat d + c) = entry (outs ! t) i c)"
proof -
  let ?hs = "heads mha"
  let ?outs = "map (\<lambda>h. spec_attention h eq ek ev None) ?hs"
  let ?out = "\<lparr>nrows = nrows eq, ncols = sum_list (map ncols ?outs),
               elems = map (\<lambda>i. concat (map (\<lambda>B. elems B ! i) ?outs)) [0..<nrows eq]\<rparr>"
  have valid: "\<forall>h\<in>set ?hs. wf_head h \<and> valid_inputs h eq ek ev None"
    using assms(3) by blast
  have run: "run_heads ?hs eq ek ev = Inr ?outs"
    by (rule run_heads_valid [OF valid])
  have "concatenate ?outs (mh_col_dim mha) = Inr ?out"
    by (rule concatenate_axis1) (use assms(1,2) in \<open>auto simp: spec_attention_def\<close>)
  then have call: "MultiHeadAttention_call mha eq ek ev = Inr ?out"
    by (simp add: MultiHeadAttention_call_def run)
  have heads: "\<forall>t<length ?hs. Attention_call (?hs ! t) eq ek ev None = Inr (?outs ! t)"
    using valid by (simp add: Attention_call_valid)
  have "\<forall>B\<in>set ?outs. ncols B = nat d"
    using assms(3) by (auto simp: spec_attention_def)
  then have cols: "ncols ?out = length ?hs * nat d"
    using sum_list_const [of ?outs ncols "nat d"] by simp
  have rows: "\<forall>i<nrows eq. elems ?out ! i = concat (map (\<lambda>B. elems B ! i) ?outs)"
    by simp
  have ent: "entry ?out i (t * nat d + c) = entry (?outs ! t) i c"
    if "t < length ?hs" "i < nrows eq" "c < nat d" for t i c
  proof -
    have "\<forall>xs\<in>set (map (\<lambda>B. elems B ! i) ?outs). length xs = nat d"
      using assms(3) that(2) by (auto simp: spec_attention_def elems_tabulate2_nth)
    from nth_concat_uniform [OF this, of t c] that
    show ?thesis by (simp add: entry_def)
  qed
  show ?thesis
    using call heads cols rows ent
    by (intro exI [of _ ?out] exI [of _ ?outs]) simp
qed

theorem MultiHeadAttention_call_concat_witness:
  "MultiHeadAttention_init ex_random 1 0 1 2 ex_rngs
     = Inr (ex_mha2, \<lparr>rng_key = 0, rng_count = 2\<rparr>)
   \<and> heads ex_mha2 = [ex_head, ex_head2]
   \<and> wf_head ex_head \<and> wf_head ex_head2
   \<and> valid_inputs ex_head ex_col2 ex_col2 ex_col2 None
   \<and> valid_inputs ex_head2 ex_col2 ex_col2 ex_col2 None
   \<and> MultiHeadAttention_call ex_mha2 ex_col2 ex_col2 ex_col2 = Inr ex_out2
   \<and> nrows ex_out2 = nrows ex_col2 \<and> ncols ex_out2 = 2 * 1
   \<and> (\<exists>out1 out2.
         Attention_call ex_head ex_col2 ex_col2 ex_col2 None = Inr out1
       \<and> Attention_call ex_head2 ex_col2 ex_col2 ex_col2 None = Inr out2
       \<and> elems ex_out2 ! 0 = elems out1 ! 0 @ elems out2 ! 0
       \<and> elems ex_out2 ! 1 = elems out1 ! 1 @ elems out2 ! 1
       \<and> entry ex_out2 0 0 = entry out1 0 0 \<and> entry ex_out2 0 1 = entry out2 0 0
       \<and> entry ex_out2 1 0 = entry out1 1 0 \<and> entry ex_out2 1 1 = entry out2 1 0)"
proof -
  have hs: "heads ex_mha2 = [ex_head, ex_head2]" and ax: "canonicalize_axis (mh_col_dim ex_mha2) = Inr 1"
    by (simp_all add: ex_mha2_def canonicalize_axis_def)
  have ne: "heads ex_mha2 \<noteq> []" by (simp add: hs)
  have d: "d_model ex_head = 1" "d_model ex_head2 = 1"
    by (simp_all add: ex_head_def ex_head2_def)
  have n: "nrows ex_col2 = 2" by (simp add: ex_col2_def)
  have all: "\<forall>h\<in>set (heads ex_mha2). wf_head h \<and> d_model h = 1
               \<and> valid_inputs h ex_col2 ex_col2 ex_col2 None"
    by (simp add: hs ex_head_wf ex_head2_wf ex_valid_inputs3 d)
  from MultiHeadAttention_call_concat [OF ne ax all]
  obtain out outs where
    call: "MultiHeadAttention_call ex_mha2 ex_col2 ex_col2 ex_col2 = Inr out"
    and len0: "length outs = length (heads ex_mha2)"
    and hd0: "\<forall>t<length (heads ex_mha2).
               Attention_call (heads ex_mha2 ! t) ex_col2 ex_col2 ex_col2 None = Inr (outs ! t)"
    and shape0: "nrows out = nrows ex_col2" "ncols out = length (heads ex_mha2) * nat 1"
    and rows0: "\<forall>i<nrows ex_col2. elems out ! i = concat (map (\<lambda>B. elems B ! i) outs)"
    and ent0: "\<forall>t<length (heads ex_mha2). \<forall>i<nrows ex_col2. \<forall>c<nat 1.
                entry out i (t * nat 1 + c) = entry (outs ! t) i c"
    by blast
  have len: "length outs = 2" using len0 by (simp add: hs)
  have hd: "\<forall>t<2. Attention_call ([ex_head, ex_head2] ! t) ex_col2 ex_col2 ex_col2 None
                     = Inr (outs ! t)"
    using hd0 by (simp add: hs)
  have shape: "nrows out = nrows ex_col2" "ncols out = 2 * 1"
    using shape0 by (simp_all add: hs)
  have rows: "\<forall>i<2. elems out ! i = concat (map (\<lambda>B. elems B ! i) outs)"
    using rows0 by (simp add: n)
  have ent: "\<forall>t<2. \<forall>i<2. entry out i t = entry (outs ! t) i 0"
    using ent0 by (simp add: hs n)
  from call have out: "out = ex_out2" by (simp add: ex_mha2_call)
  from len obtain out1 out2 where outs: "outs = [out1, out2]"
    by (cases outs; cases "tl outs") auto
  from hd have "Attention_call ex_head ex_col2 ex_col2 ex_col2 None = Inr out1"
    and "Attention_call ex_head2 ex_col2 ex_col2 ex_col2 None = Inr out2"
    by (auto simp: outs less_2_cases_iff)
  moreover from rows have "elems ex_out2 ! 0 = elems out1 ! 0 @ elems out2 ! 0"
    and "elems ex_out2 ! 1 = elems out1 ! 1 @ elems out2 ! 1"
    by (auto simp: outs out less_2_cases_iff)
  moreover from ent have "entry ex_out2 0 0 = entry out1 0 0" "entry ex_out2 0 1 = entry out2 0 0"
    "entry ex_out2 1 0 = entry out1 1 0" "entry ex_out2 1 1 = entry out2 1 0"
    by (auto simp: outs out less_2_cases_iff)
  ultimately show ?thesis
    using shape hs ex_head_wf ex_head2_wf ex_valid_inputs3 ex_mha2_init ex_mha2_call
    by (auto simp: out)
qed

text \<open>
  C5, as amended: constructing \<^verbatim>\<open>MultiHeadAttention\<close> with \<open>num_heads = 0\<close> succeeds. The
  instance has an empty list of heads and the random state is untouched; it is the call on
  that instance that fails, concatenating an empty list of outputs.
\<close>

theorem MultiHeadAttention_zero_heads:
  "MultiHeadAttention_init J d r c 0 rngs = Inr (\<lparr>heads = [], mh_col_dim = c\<rparr>, rngs)
   \<and> MultiHeadAttention_call \<lparr>heads = [], mh_col_dim = c\<rparr> eq ek ev = Inl ConcatEmpty"
  by (simp add: MultiHeadAttention_init_def MultiHeadAttention_call_def concatenate_def)

text \<open>C5, as stated, fails: the construction with zero heads returns an instance.\<close>

theorem MultiHeadAttention_zero_heads_counterexample:
  "MultiHeadAttention_init ex_random 1 0 1 0 ex_rngs
     = Inr (\<lparr>heads = [], mh_col_dim = 1\<rparr>, ex_rngs)"
  by (simp add: MultiHeadAttention_init_def)

section \<open>The constructors\<close>

text \<open>
  C10: each of the three constructors draws \<open>W_q\<close>, \<open>W_k\<close> and \<open>W_v\<close> from the one key that
  \<^verbatim>\<open>rngs.params()\<close> returned, with the same shape, so the three matrices of a constructed
  head are equal, and the projections of one input by the three of them coincide.
\<close>

theorem constructors_share_key:
  assumes "Attention_init J d r c rngs = Inr (h, rngs')
           \<or> SelfAttention_init J d r c rngs = Inr (h, rngs')
           \<or> MaskedSelfAttention_init J d r c rngs = Inr (h, rngs')"
  shows "random_uniform J (fst (Rngs_params J rngs)) (d, d) = Inr (W_q h)
         \<and> W_q h = W_k h \<and> W_k h = W_v h
         \<and> matmul x (W_q h) = matmul x (W_k h) \<and> matmul x (W_k h) = matmul x (W_v h)"
proof -
  from assms have init: "Attention_init J d r c rngs = Inr (h, rngs')"
    by (simp add: SelfAttention_init_eq MaskedSelfAttention_init_eq)
  then have "0 \<le> d" and "W_k h = W_q h" and "W_v h = W_q h"
    and "W_q h = tabulate2 (nat d) (nat d) (uniform J (fst (Rngs_params J rngs)) (nat d, nat d))"
    using Attention_init_Inr [OF init] by simp_all
  then show ?thesis by (simp add: random_uniform_def)
qed

theorem constructors_share_key_witness:
  "Attention_init ex_random 1 0 1 ex_rngs = Inr (ex_head, \<lparr>rng_key = 0, rng_count = 1\<rparr>)
   \<and> SelfAttention_init ex_random 1 0 1 ex_rngs = Inr (ex_head, \<lparr>rng_key = 0, rng_count = 1\<rparr>)
   \<and> MaskedSelfAttention_init ex_random 1 0 1 ex_rngs
       = Inr (ex_head, \<lparr>rng_key = 0, rng_count = 1\<rparr>)
   \<and> W_q ex_head = W_k ex_head \<and> W_k ex_head = W_v ex_head
   \<and> matmul ex_col2 (W_q ex_head) = matmul ex_col2 (W_k ex_head)
   \<and> matmul ex_col2 (W_k ex_head) = matmul ex_col2 (W_v ex_head)"
proof -
  have init: "Attention_init ex_random 1 0 1 ex_rngs
                = Inr (ex_head, \<lparr>rng_key = 0, rng_count = 1\<rparr>)"
    by (simp add: Attention_init_def Rngs_params_def random_uniform_def ex_random_def
        ex_rngs_def ex_head_def ex_ones_def tabulate2_def)
  from constructors_share_key [OF disjI1, OF init, of ex_col2] init
  show ?thesis by (simp add: SelfAttention_init_eq MaskedSelfAttention_init_eq)
qed

end
